theory Spec2Isabelle
  imports Complex_Main "HOL-Library.Word"
begin

section \<open>The trait predicate of the CBLAS trmv binding\<close>

text \<open>
  The source file \<^verbatim>\<open>kernels/cblas/trmv.hpp\<close> decides at compile time, from the storage
  tags and the element types of the two operand types, whether the CBLAS binding may be
  used. Template arguments are C++ types; the model names the types the source mentions
  and keeps every other type as a named constructor of its own.
\<close>

datatype storage_tag = dense_tag | other_storage_tag string

datatype value_type = Float | Double | StdComplex value_type | OtherType string

text \<open>
  The primary template answers \<^verbatim>\<open>std::false_type\<close>; four full specialisations answer
  \<^verbatim>\<open>std::true_type\<close>. A full specialisation is chosen exactly when all four arguments
  agree with it, so the specialisations come first and the primary template last.
\<close>

fun optimized_trmv_detail ::
  "storage_tag \<Rightarrow> storage_tag \<Rightarrow> value_type \<Rightarrow> value_type \<Rightarrow> bool" where
  "optimized_trmv_detail dense_tag dense_tag Double Double = True"
| "optimized_trmv_detail dense_tag dense_tag Float Float = True"
| "optimized_trmv_detail dense_tag dense_tag (StdComplex Double) (StdComplex Double) = True"
| "optimized_trmv_detail dense_tag dense_tag (StdComplex Float) (StdComplex Float) = True"
| "optimized_trmv_detail _ _ _ _ = False"

text \<open>
  What \<^verbatim>\<open>has_optimized_trmv<M1, M2>\<close> reads from an operand type \<^verbatim>\<open>M\<close>:
  \<^verbatim>\<open>M::storage_type::storage_tag\<close> and \<^verbatim>\<open>M::value_type\<close>.
\<close>

record container_type =
  storage_tag_of :: storage_tag
  value_type_of :: value_type

definition has_optimized_trmv :: "container_type \<Rightarrow> container_type \<Rightarrow> bool" where
  "has_optimized_trmv M1 M2 =
     optimized_trmv_detail (storage_tag_of M1) (storage_tag_of M2)
       (value_type_of M1) (value_type_of M2)"


section \<open>The calling-convention adapter\<close>

subsection \<open>Machine integers, addresses and the native interface\<close>

text \<open>
  \<^verbatim>\<open>std::size_t\<close> is taken as an unsigned 64-bit integer and \<^verbatim>\<open>int\<close> as a signed 32-bit
  integer (the LP64 data model). A conversion from \<^verbatim>\<open>std::size_t\<close> to \<^verbatim>\<open>int\<close> keeps the
  low 32 bits (\<open>ucast\<close>) and \<open>sint\<close> reads the result as two's complement. A pointer is
  an address: an index into a memory of elements.
\<close>

type_synonym size_t = "64 word"
type_synonym c_int = "32 word"
type_synonym addr = nat

text \<open>The enumerations of \<^verbatim>\<open>cblas.h\<close>, by the names the source uses.\<close>

datatype CBLAS_ORDER = CblasRowMajor | CblasColMajor
datatype CBLAS_UPLO = CblasUpper | CblasLower
datatype CBLAS_TRANSPOSE = CblasNoTrans | CblasTrans | CblasConjTrans
datatype CBLAS_DIAG = CblasNonUnit | CblasUnit

text \<open>The four native entry points the typed overloads forward to.\<close>

datatype cblas_routine = cblas_strmv | cblas_dtrmv | cblas_ctrmv | cblas_ztrmv

text \<open>One call of a native entry point: the routine and its nine arguments, in order.\<close>

record native_call =
  routine :: cblas_routine
  arg_Order :: CBLAS_ORDER
  arg_uplo :: CBLAS_UPLO
  arg_transA :: CBLAS_TRANSPOSE
  arg_unit :: CBLAS_DIAG
  arg_N :: c_int
  arg_A :: addr
  arg_lda :: c_int
  arg_X :: addr
  arg_incX :: c_int

text \<open>
  The state the adapter acts on: the memory behind the pointers and the sequence of
  native calls issued so far. The native backend is external to the repository; it
  enters the model as a parameter that says how one call transforms the memory.
\<close>

record 'a machine =
  memory :: "addr \<Rightarrow> 'a"
  native_calls :: "native_call list"

type_synonym 'a backend = "native_call \<Rightarrow> (addr \<Rightarrow> 'a) \<Rightarrow> (addr \<Rightarrow> 'a)"

definition invoke :: "'a backend \<Rightarrow> native_call \<Rightarrow> 'a machine \<Rightarrow> 'a machine" where
  "invoke native c s =
     s\<lparr>memory := native c (memory s), native_calls := native_calls s @ [c]\<rparr>"

subsection \<open>The typed overloads\<close>

text \<open>
  The four overloads of \<^verbatim>\<open>trmv\<close> on raw pointers differ in the element type of the
  pointers and forward their arguments unchanged to one native entry point each.
\<close>

definition trmv_float ::
  "'a backend \<Rightarrow> CBLAS_ORDER \<Rightarrow> CBLAS_UPLO \<Rightarrow> CBLAS_TRANSPOSE \<Rightarrow> CBLAS_DIAG \<Rightarrow> c_int \<Rightarrow>
   addr \<Rightarrow> c_int \<Rightarrow> addr \<Rightarrow> c_int \<Rightarrow> 'a machine \<Rightarrow> 'a machine" where
  "trmv_float native Order uplo transA unit N A lda X incX =
     invoke native \<lparr>routine = cblas_strmv, arg_Order = Order, arg_uplo = uplo,
       arg_transA = transA, arg_unit = unit, arg_N = N,
       arg_A = A, arg_lda = lda, arg_X = X, arg_incX = incX\<rparr>"

definition trmv_double ::
  "'a backend \<Rightarrow> CBLAS_ORDER \<Rightarrow> CBLAS_UPLO \<Rightarrow> CBLAS_TRANSPOSE \<Rightarrow> CBLAS_DIAG \<Rightarrow> c_int \<Rightarrow>
   addr \<Rightarrow> c_int \<Rightarrow> addr \<Rightarrow> c_int \<Rightarrow> 'a machine \<Rightarrow> 'a machine" where
  "trmv_double native Order uplo transA unit N A lda X incX =
     invoke native \<lparr>routine = cblas_dtrmv, arg_Order = Order, arg_uplo = uplo,
       arg_transA = transA, arg_unit = unit, arg_N = N,
       arg_A = A, arg_lda = lda, arg_X = X, arg_incX = incX\<rparr>"

definition trmv_complex_float ::
  "'a backend \<Rightarrow> CBLAS_ORDER \<Rightarrow> CBLAS_UPLO \<Rightarrow> CBLAS_TRANSPOSE \<Rightarrow> CBLAS_DIAG \<Rightarrow> c_int \<Rightarrow>
   addr \<Rightarrow> c_int \<Rightarrow> addr \<Rightarrow> c_int \<Rightarrow> 'a machine \<Rightarrow> 'a machine" where
  "trmv_complex_float native Order uplo transA unit N A lda X incX =
     invoke native \<lparr>routine = cblas_ctrmv, arg_Order = Order, arg_uplo = uplo,
       arg_transA = transA, arg_unit = unit, arg_N = N,
       arg_A = A, arg_lda = lda, arg_X = X, arg_incX = incX\<rparr>"

definition trmv_complex_double ::
  "'a backend \<Rightarrow> CBLAS_ORDER \<Rightarrow> CBLAS_UPLO \<Rightarrow> CBLAS_TRANSPOSE \<Rightarrow> CBLAS_DIAG \<Rightarrow> c_int \<Rightarrow>
   addr \<Rightarrow> c_int \<Rightarrow> addr \<Rightarrow> c_int \<Rightarrow> 'a machine \<Rightarrow> 'a machine" where
  "trmv_complex_double native Order uplo transA unit N A lda X incX =
     invoke native \<lparr>routine = cblas_ztrmv, arg_Order = Order, arg_uplo = uplo,
       arg_transA = transA, arg_unit = unit, arg_N = N,
       arg_A = A, arg_lda = lda, arg_X = X, arg_incX = incX\<rparr>"

text \<open>
  Overload resolution at the call inside the adapter: the matrix pointer and the vector
  pointer must both point to the element type of one overload. With any other pair of
  element types no overload is viable and the instantiation is rejected by the compiler.
\<close>

fun trmv_overload :: "value_type \<Rightarrow> value_type \<Rightarrow> cblas_routine option" where
  "trmv_overload Float Float = Some cblas_strmv"
| "trmv_overload Double Double = Some cblas_dtrmv"
| "trmv_overload (StdComplex Float) (StdComplex Float) = Some cblas_ctrmv"
| "trmv_overload (StdComplex Double) (StdComplex Double) = Some cblas_ztrmv"
| "trmv_overload _ _ = None"

text \<open>The element type behind the pointers of the overload that reaches a native routine.\<close>

fun pointer_element_type :: "cblas_routine \<Rightarrow> value_type" where
  "pointer_element_type cblas_strmv = Float"
| "pointer_element_type cblas_dtrmv = Double"
| "pointer_element_type cblas_ctrmv = StdComplex Float"
| "pointer_element_type cblas_ztrmv = StdComplex Double"

fun trmv_typed ::
  "cblas_routine \<Rightarrow> 'a backend \<Rightarrow> CBLAS_ORDER \<Rightarrow> CBLAS_UPLO \<Rightarrow> CBLAS_TRANSPOSE \<Rightarrow> CBLAS_DIAG \<Rightarrow>
   c_int \<Rightarrow> addr \<Rightarrow> c_int \<Rightarrow> addr \<Rightarrow> c_int \<Rightarrow> 'a machine \<Rightarrow> 'a machine" where
  "trmv_typed cblas_strmv = trmv_float"
| "trmv_typed cblas_dtrmv = trmv_double"
| "trmv_typed cblas_ctrmv = trmv_complex_float"
| "trmv_typed cblas_ztrmv = trmv_complex_double"

subsection \<open>Operand views\<close>

datatype orientation = row_major | column_major

text \<open>
  Modelled from the spec: the Storage Descriptor types returned by \<^verbatim>\<open>raw_storage()\<close> are
  declared outside the sources covered here. A matrix descriptor is a base pointer with a
  leading dimension, a vector descriptor a base pointer with a stride; both counts are
  taken as \<^verbatim>\<open>std::size_t\<close>, converted to \<^verbatim>\<open>int\<close> where the typed overload receives them.
\<close>

record dense_matrix_storage =
  mat_values :: addr
  leading_dimension :: size_t

record dense_vector_storage =
  vec_values :: addr
  stride :: size_t

text \<open>
  What the adapter reads from its operands: the compile-time members of the operand
  type (element type, storage tag, orientation) and the results of the calls
  \<^verbatim>\<open>size1()\<close>, \<open>size2()\<close>, \<^verbatim>\<open>size()\<close> and \<^verbatim>\<open>raw_storage()\<close>.
\<close>

record matrix_expression =
  mat_type :: container_type
  mat_orientation :: orientation
  size1 :: size_t
  size2 :: size_t
  mat_raw_storage :: dense_matrix_storage

record vector_expression =
  vec_type :: container_type
  vec_size :: size_t
  vec_raw_storage :: dense_vector_storage

text \<open>
  Modelled from the spec: \<^verbatim>\<open>storage_order<Orientation>::value\<close> is declared outside the
  sources covered here. It maps the orientation tag of the matrix type to the order
  enumeration of the native routine.
\<close>

fun storage_order :: "orientation \<Rightarrow> CBLAS_ORDER" where
  "storage_order row_major = CblasRowMajor"
| "storage_order column_major = CblasColMajor"

subsection \<open>Precondition checks\<close>

datatype outcome = Returned | SizeCheckFailed | NoViableOverload

text \<open>
  Modelled from the spec: the macro \<^verbatim>\<open>SIZE_CHECK\<close> is defined outside the sources covered here.
  A shape violation is signalled by an immediate abort-style assertion: when the
  condition is false nothing after the check runs, and the state is the one at the check.
\<close>

definition SIZE_CHECK ::
  "bool \<Rightarrow> ('s \<Rightarrow> outcome \<times> 's) \<Rightarrow> 's \<Rightarrow> outcome \<times> 's" where
  "SIZE_CHECK cond rest s = (if cond then rest s else (SizeCheckFailed, s))"

subsection \<open>The adapter\<close>

text \<open>
  \<^verbatim>\<open>trmv<upper, unit>(A, x, std::true_type)\<close>. The instantiation compiles only when an
  overload is viable for the two element types; then the two size checks run, the
  metadata is mapped and the typed overload is called once.
\<close>

definition trmv ::
  "'a backend \<Rightarrow> bool \<Rightarrow> bool \<Rightarrow> matrix_expression \<Rightarrow> vector_expression \<Rightarrow>
   'a machine \<Rightarrow> outcome \<times> 'a machine" where
  "trmv native upper unit A x =
     (case trmv_overload (value_type_of (mat_type A)) (value_type_of (vec_type x)) of
        None \<Rightarrow> (\<lambda>s. (NoViableOverload, s))
      | Some r \<Rightarrow>
          SIZE_CHECK (vec_size x = size2 A)
         (SIZE_CHECK (size2 A = size1 A)
         (\<lambda>s. let n = size1 A;
                  cblasUnit = (if unit then CblasUnit else CblasNonUnit);
                  cblasUplo = (if upper then CblasUpper else CblasLower);
                  stor_ord = storage_order (mat_orientation A);
                  storageA = mat_raw_storage A;
                  storagex = vec_raw_storage x
              in (Returned,
                  trmv_typed r native stor_ord cblasUplo CblasNoTrans cblasUnit (ucast n)
                    (mat_values storageA) (ucast (leading_dimension storageA))
                    (vec_values storagex) (ucast (stride storagex)) s))))"


subsection \<open>The native routine as the spec describes it\<close>

text \<open>
  Modelled from the spec: the native backend (\<^verbatim>\<open>cblas_strmv\<close> and its siblings) is not
  part of the sources covered here. Its call contract is an in-place triangular multiply of
  the vector by the matrix, \<open>x := A x\<close>: the matrix is read through its base pointer
  and leading dimension in the given order, entries outside the given triangle count
  as zero and are not read, with a unit diagonal the diagonal entries count as one and
  are not read, and the vector is read and written through its base pointer and
  increment. The model covers non-negative dimensions and increments, which is what a
  view's size and stride are, and the real-valued routines, where a conjugated
  transpose is a transpose.
\<close>

definition stored_entry :: "native_call \<Rightarrow> (addr \<Rightarrow> 'a) \<Rightarrow> nat \<Rightarrow> nat \<Rightarrow> 'a" where
  "stored_entry c mem i j =
     mem (arg_A c + (case arg_Order c of
                       CblasRowMajor \<Rightarrow> i * nat (sint (arg_lda c)) + j
                     | CblasColMajor \<Rightarrow> j * nat (sint (arg_lda c)) + i))"

definition triangular_entry ::
  "native_call \<Rightarrow> (addr \<Rightarrow> 'a::{zero,one}) \<Rightarrow> nat \<Rightarrow> nat \<Rightarrow> 'a" where
  "triangular_entry c mem i j =
     (if i = j then
        (case arg_unit c of CblasUnit \<Rightarrow> 1 | CblasNonUnit \<Rightarrow> stored_entry c mem i j)
      else if (case arg_uplo c of CblasUpper \<Rightarrow> i < j | CblasLower \<Rightarrow> j < i)
        then stored_entry c mem i j
      else 0)"

definition op_entry ::
  "native_call \<Rightarrow> (addr \<Rightarrow> 'a::{zero,one}) \<Rightarrow> nat \<Rightarrow> nat \<Rightarrow> 'a" where
  "op_entry c mem i j =
     (case arg_transA c of
        CblasNoTrans \<Rightarrow> triangular_entry c mem i j
      | CblasTrans \<Rightarrow> triangular_entry c mem j i
      | CblasConjTrans \<Rightarrow> triangular_entry c mem j i)"

definition cblas_trmv_ref :: "native_call \<Rightarrow> (addr \<Rightarrow> 'a::semiring_1) \<Rightarrow> (addr \<Rightarrow> 'a)" where
  "cblas_trmv_ref c mem =
     (let n = nat (sint (arg_N c));
          inc = nat (sint (arg_incX c));
          x = (\<lambda>j. mem (arg_X c + j * inc));
          y = (\<lambda>i. sum_list (map (\<lambda>j. op_entry c mem i j * x j) [0..<n]))
      in fold (\<lambda>i m. m(arg_X c + i * inc := y i)) [0..<n] mem)"

subsection \<open>Example operands\<close>

text \<open>
  A memory holding a buffer at address 0, and views of double-precision dense operands:
  a square matrix of dimension \<open>n\<close> whose buffer starts at address 0 with leading
  dimension \<open>n\<close>, followed by a contiguous vector of \<open>k\<close> elements.
\<close>

definition buffer_memory :: "real list \<Rightarrow> addr \<Rightarrow> real" where
  "buffer_memory buf a = (if a < length buf then buf ! a else 0)"

definition dense_double :: container_type where
  "dense_double = \<lparr>storage_tag_of = dense_tag, value_type_of = Double\<rparr>"

definition dense_of :: "value_type \<Rightarrow> container_type" where
  "dense_of t = \<lparr>storage_tag_of = dense_tag, value_type_of = t\<rparr>"

definition example_matrix :: "orientation \<Rightarrow> size_t \<Rightarrow> matrix_expression" where
  "example_matrix ori n =
     \<lparr>mat_type = dense_double, mat_orientation = ori, size1 = n, size2 = n,
      mat_raw_storage = \<lparr>mat_values = 0, leading_dimension = n\<rparr>\<rparr>"

definition example_vector :: "size_t \<Rightarrow> size_t \<Rightarrow> vector_expression" where
  "example_vector n k =
     \<lparr>vec_type = dense_double, vec_size = k,
      vec_raw_storage = \<lparr>vec_values = unat (n * n), stride = 1\<rparr>\<rparr>"

definition example_machine :: "real list \<Rightarrow> real machine" where
  "example_machine buf = \<lparr>memory = buffer_memory buf, native_calls = []\<rparr>"

definition read_vector :: "vector_expression \<Rightarrow> (addr \<Rightarrow> 'a) \<Rightarrow> 'a list" where
  "read_vector x mem =
     map (\<lambda>i. mem (vec_values (vec_raw_storage x) + i * unat (stride (vec_raw_storage x))))
       [0..<unat (vec_size x)]"


section \<open>The Normalizer model\<close>

text \<open>
  \<^verbatim>\<open>Normalizer\<close> holds the diagonal \<^verbatim>\<open>m_A\<close>, the offset \<^verbatim>\<open>m_b\<close> and the flag
  \<^verbatim>\<open>m_hasOffset\<close>. A vector is the list of its elements; its size is the length of the
  list. The element type is left open: the model uses only its product and sum.
\<close>

record 'a Normalizer =
  m_A :: "'a list"
  m_b :: "'a list"
  m_hasOffset :: bool

definition hasOffset :: "'a Normalizer \<Rightarrow> bool" where
  "hasOffset m = m_hasOffset m"

definition diagonal :: "'a Normalizer \<Rightarrow> 'a list" where
  "diagonal m = m_A m"

definition offset :: "'a Normalizer \<Rightarrow> 'a list" where
  "offset m = m_b m"

definition inputSize :: "'a Normalizer \<Rightarrow> nat" where
  "inputSize m = length (m_A m)"

definition outputSize :: "'a Normalizer \<Rightarrow> nat" where
  "outputSize m = length (m_A m)"

text \<open>\<^verbatim>\<open>m_A | m_b\<close> is the concatenation of the two vectors.\<close>

definition parameterVector :: "'a Normalizer \<Rightarrow> 'a list" where
  "parameterVector m = (if hasOffset m then m_A m @ m_b m else m_A m)"

definition numberOfParameters :: "'a Normalizer \<Rightarrow> nat" where
  "numberOfParameters m =
     (if m_hasOffset m then length (m_A m) + length (m_b m) else length (m_A m))"

subsection \<open>Vector operations of the container library\<close>

text \<open>
  Modelled from the spec: \<^verbatim>\<open>subrange\<close> and the \<^verbatim>\<open>noalias\<close> assignment belong to the
  container library and are not part of the sources covered here. A shape violation is a
  precondition failure: a range that does not lie inside the vector, or an assignment
  between vectors of different sizes, yields no value and aborts the caller.
  \<^verbatim>\<open>subrange(v, start, stop)\<close> is the part of \<open>v\<close> from index \<open>start\<close> up to but
  excluding \<open>stop\<close>; \<^verbatim>\<open>noalias(x) = e\<close> overwrites the elements of \<open>x\<close> with those of
  \<open>e\<close> and never resizes \<open>x\<close>.
\<close>

definition subrange :: "'a list \<Rightarrow> nat \<Rightarrow> nat \<Rightarrow> 'a list option" where
  "subrange v start stop =
     (if start \<le> stop \<and> stop \<le> length v then Some (take (stop - start) (drop start v))
      else None)"

definition noalias_assign :: "'a list \<Rightarrow> 'a list \<Rightarrow> 'a list option" where
  "noalias_assign x e = (if length x = length e then Some e else None)"

fun checked :: "'v option \<Rightarrow> ('v \<Rightarrow> 's \<Rightarrow> outcome \<times> 's) \<Rightarrow> 's \<Rightarrow> outcome \<times> 's" where
  "checked None rest s = (SizeCheckFailed, s)"
| "checked (Some v) rest s = rest v s"

subsection \<open>Overwriting the parameters\<close>

definition setParameterVector :: "'a list \<Rightarrow> 'a Normalizer \<Rightarrow> outcome \<times> 'a Normalizer" where
  "setParameterVector newParameters m0 =
     SIZE_CHECK (length newParameters = numberOfParameters m0)
       (\<lambda>m. let dim = length (m_A m) in
          checked (subrange newParameters 0 dim) (\<lambda>r.
          checked (noalias_assign (m_A m) r) (\<lambda>a m1.
            let m2 = m1\<lparr>m_A := a\<rparr> in
            if hasOffset m2 then
              checked (subrange newParameters dim (2 * dim)) (\<lambda>r'.
              checked (noalias_assign (m_b m2) r') (\<lambda>b m3.
                (Returned, m3\<lparr>m_b := b\<rparr>))) m2
            else (Returned, m2))) m) m0"

subsection \<open>Batch evaluation\<close>

text \<open>
  A batch is a dense matrix with one data point per row: \<^verbatim>\<open>size1()\<close> is the number of
  points, \<^verbatim>\<open>size2()\<close> the dimension of a point.
\<close>

record 'a batch =
  batch_size1 :: nat
  batch_size2 :: nat
  batch_rows :: "'a list list"

text \<open>
  Modelled from the spec: \<^verbatim>\<open>repeat\<close>, \<^verbatim>\<open>resize\<close> and the elementwise matrix expressions
  belong to the container library and are not part of the sources covered here.
  \<^verbatim>\<open>repeat(v, rows)\<close> is the matrix with \<open>rows\<close> rows, each equal to \<open>v\<close>; the product and
  the sum of two matrices act elementwise and need operands of one shape, a mismatch
  being a precondition failure. \<^verbatim>\<open>resize\<close> fixes the shape of the output; the elements
  it leaves are overwritten by the assignment that follows, so only the shape is kept.
\<close>

definition repeat :: "'a list \<Rightarrow> nat \<Rightarrow> 'a batch" where
  "repeat v rows = \<lparr>batch_size1 = rows, batch_size2 = length v, batch_rows = replicate rows v\<rparr>"

definition resize :: "nat \<Rightarrow> nat \<Rightarrow> 'a batch \<Rightarrow> 'a batch" where
  "resize r c M = M\<lparr>batch_size1 := r, batch_size2 := c\<rparr>"

definition same_shape :: "'a batch \<Rightarrow> 'a batch \<Rightarrow> bool" where
  "same_shape M1 M2 = (batch_size1 M1 = batch_size1 M2 \<and> batch_size2 M1 = batch_size2 M2)"

definition elementwise :: "('a \<Rightarrow> 'a \<Rightarrow> 'a) \<Rightarrow> 'a batch \<Rightarrow> 'a batch \<Rightarrow> 'a batch option" where
  "elementwise f M1 M2 =
     (if same_shape M1 M2
      then Some (M1\<lparr>batch_rows := map2 (map2 f) (batch_rows M1) (batch_rows M2)\<rparr>)
      else None)"

definition noalias_assign_matrix :: "'a batch \<Rightarrow> 'a batch \<Rightarrow> 'a batch option" where
  "noalias_assign_matrix M E = (if same_shape M E then Some E else None)"

text \<open>\<^verbatim>\<open>eval(input, output)\<close>: the model is read, the output batch is the state.\<close>

definition eval ::
  "'a::{times,plus} Normalizer \<Rightarrow> 'a batch \<Rightarrow> 'a batch \<Rightarrow> outcome \<times> 'a batch" where
  "eval m input =
     SIZE_CHECK (batch_size1 input = length (m_A m))
       (\<lambda>output0.
          let output1 = resize (batch_size1 input) (batch_size2 input) output0 in
          checked (elementwise (*) input (repeat (m_A m) (batch_size1 input))) (\<lambda>e.
          checked (noalias_assign_matrix output1 e) (\<lambda>output2 _.
            if hasOffset m then
              checked (elementwise (+) output2 (repeat (m_b m) (batch_size1 input)))
                (\<lambda>output3 _. (Returned, output3)) output2
            else (Returned, output2))) output1)"

section \<open>Properties of the trait predicate\<close>

lemma optimized_trmv_detail_iff:
  "optimized_trmv_detail s1 s2 t1 t2 =
     (s1 = dense_tag \<and> s2 = dense_tag \<and> t1 = t2 \<and>
      (t1 = Float \<or> t1 = Double \<or> t1 = StdComplex Float \<or> t1 = StdComplex Double))"
  by (cases "(s1, s2, t1, t2)" rule: optimized_trmv_detail.cases) auto

text \<open>
  Claim C1. The trait predicate \<open>has_optimized_trmv\<close>, through
  \<open>optimized_trmv_detail\<close>, answers true for exactly four combinations: both operands
  have dense storage and the same element type, and that type is float, double,
  complex of float or complex of double. Every other combination, with a differing
  pair of element types or a storage tag that is not dense, gets the answer false of
  the primary template.
\<close>

theorem has_optimized_trmv_closed_world:
  "has_optimized_trmv M1 M2 =
     (storage_tag_of M1 = dense_tag \<and> storage_tag_of M2 = dense_tag \<and>
      value_type_of M1 = value_type_of M2 \<and>
      value_type_of M1 \<in> {Float, Double, StdComplex Float, StdComplex Double})"
  unfolding has_optimized_trmv_def optimized_trmv_detail_iff by auto

section \<open>Properties of the adapter\<close>

lemma trmv_overload_Some:
  assumes "trmv_overload t1 t2 = Some r"
  shows "t1 = pointer_element_type r \<and> t2 = pointer_element_type r"
  using assms by (cases "(t1, t2)" rule: trmv_overload.cases) auto

lemma trmv_checked_run:
  assumes "trmv_overload (value_type_of (mat_type A)) (value_type_of (vec_type x)) = Some r"
      and "vec_size x = size2 A" and "size2 A = size1 A"
  shows "trmv native upper unit A x s =
     (Returned,
      invoke native
        \<lparr>routine = r,
         arg_Order = storage_order (mat_orientation A),
         arg_uplo = (if upper then CblasUpper else CblasLower),
         arg_transA = CblasNoTrans,
         arg_unit = (if unit then CblasUnit else CblasNonUnit),
         arg_N = ucast (size1 A),
         arg_A = mat_values (mat_raw_storage A),
         arg_lda = ucast (leading_dimension (mat_raw_storage A)),
         arg_X = vec_values (vec_raw_storage x),
         arg_incX = ucast (stride (vec_raw_storage x))\<rparr> s)"
  using assms
  by (cases r)
     (simp_all add: trmv_def SIZE_CHECK_def Let_def trmv_float_def trmv_double_def
        trmv_complex_float_def trmv_complex_double_def)

lemma trmv_failed_check:
  assumes "trmv_overload (value_type_of (mat_type A)) (value_type_of (vec_type x)) = Some r"
      and "vec_size x \<noteq> size2 A \<or> size2 A \<noteq> size1 A"
  shows "trmv native upper unit A x s = (SizeCheckFailed, s)"
  using assms by (auto simp add: trmv_def SIZE_CHECK_def)

lemma trmv_no_overload:
  assumes "trmv_overload (value_type_of (mat_type A)) (value_type_of (vec_type x)) = None"
  shows "trmv native upper unit A x s = (NoViableOverload, s)"
  using assms by (simp add: trmv_def)

lemma trmv_new_calls:
  "drop (length (native_calls s)) (native_calls (snd (trmv native upper unit A x s))) = [] \<or>
   (\<exists>c. drop (length (native_calls s)) (native_calls (snd (trmv native upper unit A x s))) = [c]
      \<and> arg_transA c = CblasNoTrans)"
proof (cases "trmv_overload (value_type_of (mat_type A)) (value_type_of (vec_type x))")
  case None
  then show ?thesis by (simp add: trmv_no_overload)
next
  case (Some r)
  show ?thesis
  proof (cases "vec_size x = size2 A \<and> size2 A = size1 A")
    case True
    then show ?thesis by (simp add: trmv_checked_run [OF Some] invoke_def)
  next
    case False
    then have "vec_size x \<noteq> size2 A \<or> size2 A \<noteq> size1 A" by blast
    then show ?thesis by (simp add: trmv_failed_check [OF Some])
  qed
qed

lemma example_overload:
  "trmv_overload (value_type_of (mat_type (example_matrix ori n)))
     (value_type_of (vec_type (example_vector n k))) = Some cblas_dtrmv"
  by (simp add: example_matrix_def example_vector_def dense_double_def)

lemma example_sizes:
  "vec_size (example_vector n k) = k" "size1 (example_matrix ori n) = n"
  "size2 (example_matrix ori n) = n"
  by (simp_all add: example_matrix_def example_vector_def)

lemma trmv_overload_viable:
  assumes "t2 = t1" and "t1 \<in> {Float, Double, StdComplex Float, StdComplex Double}"
  shows "trmv_overload t1 t2 =
     Some (if t1 = Float then cblas_strmv
           else if t1 = Double then cblas_dtrmv
           else if t1 = StdComplex Float then cblas_ctrmv
           else cblas_ztrmv)"
  using assms by auto

lemma has_optimized_trmv_viable:
  assumes "has_optimized_trmv M1 M2"
  shows "value_type_of M2 = value_type_of M1
     \<and> value_type_of M1 \<in> {Float, Double, StdComplex Float, StdComplex Double}"
  using assms unfolding has_optimized_trmv_def optimized_trmv_detail_iff by auto

text \<open>
  Claim C2, as amended. Every invocation of the adapter on operands of one element
  type among float, double, complex of float and complex of double (the instantiations
  that compile, those the trait predicate admits among them) whose operands pass the
  two size checks maps upper to \<open>CblasUpper\<close> and otherwise \<open>CblasLower\<close>, unit to
  \<open>CblasUnit\<close> and otherwise \<open>CblasNonUnit\<close>, the orientation of the matrix type to the
  order enumeration, and issues exactly one native call: the calls recorded afterwards
  are those recorded before followed by this one. The routine called is
  \<open>cblas_strmv\<close> for float, \<open>cblas_dtrmv\<close> for double, \<open>cblas_ctrmv\<close> for complex of
  float and \<open>cblas_ztrmv\<close> for complex of double, and it receives the dimension, the
  matrix base pointer with the leading dimension and the vector base pointer with the
  stride, as the operands report them at the call.
\<close>

theorem trmv_issues_one_typed_native_call:
  assumes "value_type_of (vec_type x) = value_type_of (mat_type A)"
      and "value_type_of (mat_type A) \<in> {Float, Double, StdComplex Float, StdComplex Double}"
      and "vec_size x = size2 A" and "size2 A = size1 A"
  shows "(let c = \<lparr>routine = (if value_type_of (mat_type A) = Float then cblas_strmv
                              else if value_type_of (mat_type A) = Double then cblas_dtrmv
                              else if value_type_of (mat_type A) = StdComplex Float
                                then cblas_ctrmv
                              else cblas_ztrmv),
                   arg_Order = (case mat_orientation A of
                                  row_major \<Rightarrow> CblasRowMajor | column_major \<Rightarrow> CblasColMajor),
                   arg_uplo = (if upper then CblasUpper else CblasLower),
                   arg_transA = CblasNoTrans,
                   arg_unit = (if unit then CblasUnit else CblasNonUnit),
                   arg_N = ucast (size1 A),
                   arg_A = mat_values (mat_raw_storage A),
                   arg_lda = ucast (leading_dimension (mat_raw_storage A)),
                   arg_X = vec_values (vec_raw_storage x),
                   arg_incX = ucast (stride (vec_raw_storage x))\<rparr>
          in trmv native upper unit A x s =
               (Returned, s\<lparr>memory := native c (memory s),
                            native_calls := native_calls s @ [c]\<rparr>)
             \<and> pointer_element_type (routine c) = value_type_of (mat_type A)
             \<and> pointer_element_type (routine c) = value_type_of (vec_type x))"
proof -
  let ?r = "if value_type_of (mat_type A) = Float then cblas_strmv
            else if value_type_of (mat_type A) = Double then cblas_dtrmv
            else if value_type_of (mat_type A) = StdComplex Float then cblas_ctrmv
            else cblas_ztrmv"
  have ov: "trmv_overload (value_type_of (mat_type A)) (value_type_of (vec_type x)) = Some ?r"
    using assms(1,2) by (rule trmv_overload_viable)
  have ord: "storage_order (mat_orientation A) =
      (case mat_orientation A of row_major \<Rightarrow> CblasRowMajor | column_major \<Rightarrow> CblasColMajor)"
    by (cases "mat_orientation A") simp_all
  have run: "trmv native upper unit A x s =
     (Returned,
      invoke native
        \<lparr>routine = ?r,
         arg_Order = storage_order (mat_orientation A),
         arg_uplo = (if upper then CblasUpper else CblasLower),
         arg_transA = CblasNoTrans,
         arg_unit = (if unit then CblasUnit else CblasNonUnit),
         arg_N = ucast (size1 A),
         arg_A = mat_values (mat_raw_storage A),
         arg_lda = ucast (leading_dimension (mat_raw_storage A)),
         arg_X = vec_values (vec_raw_storage x),
         arg_incX = ucast (stride (vec_raw_storage x))\<rparr> s)"
    using ov assms(3,4) by (rule trmv_checked_run)
  have pt: "pointer_element_type ?r = value_type_of (mat_type A)"
    using assms(2) by auto
  show ?thesis
    unfolding Let_def run invoke_def ord using pt assms(1) by simp
qed

text \<open>The witness runs one invocation for each of the four element types.\<close>

theorem trmv_issues_one_typed_native_call_witness:
  "trmv (\<lambda>c mem. mem) False True
       ((example_matrix column_major 3)\<lparr>mat_type := dense_of Float\<rparr>)
       ((example_vector 3 3)\<lparr>vec_type := dense_of Float\<rparr>) (example_machine [])
     = (Returned,
        \<lparr>memory = buffer_memory [],
         native_calls =
           [\<lparr>routine = cblas_strmv, arg_Order = CblasColMajor, arg_uplo = CblasLower,
             arg_transA = CblasNoTrans, arg_unit = CblasUnit, arg_N = 3,
             arg_A = 0, arg_lda = 3, arg_X = 9, arg_incX = 1\<rparr>]\<rparr>)
   \<and> trmv (\<lambda>c mem. mem) True False
       ((example_matrix row_major 3)\<lparr>mat_type := dense_of Double\<rparr>)
       ((example_vector 3 3)\<lparr>vec_type := dense_of Double\<rparr>) (example_machine [])
     = (Returned,
        \<lparr>memory = buffer_memory [],
         native_calls =
           [\<lparr>routine = cblas_dtrmv, arg_Order = CblasRowMajor, arg_uplo = CblasUpper,
             arg_transA = CblasNoTrans, arg_unit = CblasNonUnit, arg_N = 3,
             arg_A = 0, arg_lda = 3, arg_X = 9, arg_incX = 1\<rparr>]\<rparr>)
   \<and> trmv (\<lambda>c mem. mem) True True
       ((example_matrix row_major 2)\<lparr>mat_type := dense_of (StdComplex Float)\<rparr>)
       ((example_vector 2 2)\<lparr>vec_type := dense_of (StdComplex Float)\<rparr>) (example_machine [])
     = (Returned,
        \<lparr>memory = buffer_memory [],
         native_calls =
           [\<lparr>routine = cblas_ctrmv, arg_Order = CblasRowMajor, arg_uplo = CblasUpper,
             arg_transA = CblasNoTrans, arg_unit = CblasUnit, arg_N = 2,
             arg_A = 0, arg_lda = 2, arg_X = 4, arg_incX = 1\<rparr>]\<rparr>)
   \<and> trmv (\<lambda>c mem. mem) False False
       ((example_matrix column_major 2)\<lparr>mat_type := dense_of (StdComplex Double)\<rparr>)
       ((example_vector 2 2)\<lparr>vec_type := dense_of (StdComplex Double)\<rparr>) (example_machine [])
     = (Returned,
        \<lparr>memory = buffer_memory [],
         native_calls =
           [\<lparr>routine = cblas_ztrmv, arg_Order = CblasColMajor, arg_uplo = CblasLower,
             arg_transA = CblasNoTrans, arg_unit = CblasNonUnit, arg_N = 2,
             arg_A = 0, arg_lda = 2, arg_X = 4, arg_incX = 1\<rparr>]\<rparr>)"
proof -
  have w: "\<And>t ori n up un.
      t \<in> {Float, Double, StdComplex Float, StdComplex Double} \<Longrightarrow>
      (let c = \<lparr>routine = (if t = Float then cblas_strmv else if t = Double then cblas_dtrmv
                            else if t = StdComplex Float then cblas_ctrmv else cblas_ztrmv),
                 arg_Order = (case ori of row_major \<Rightarrow> CblasRowMajor
                                | column_major \<Rightarrow> CblasColMajor),
                 arg_uplo = (if up then CblasUpper else CblasLower),
                 arg_transA = CblasNoTrans,
                 arg_unit = (if un then CblasUnit else CblasNonUnit),
                 arg_N = ucast n, arg_A = 0, arg_lda = ucast n,
                 arg_X = unat (n * n), arg_incX = 1\<rparr>
       in trmv (\<lambda>c mem. mem) up un ((example_matrix ori n)\<lparr>mat_type := dense_of t\<rparr>)
            ((example_vector n n)\<lparr>vec_type := dense_of t\<rparr>) (example_machine [])
          = (Returned, \<lparr>memory = buffer_memory [], native_calls = [c]\<rparr>))"
  proof -
    fix t :: value_type and ori n up un
    assume t: "t \<in> {Float, Double, StdComplex Float, StdComplex Double}"
    have h1: "value_type_of (vec_type ((example_vector n n)\<lparr>vec_type := dense_of t\<rparr>))
        = value_type_of (mat_type ((example_matrix ori n)\<lparr>mat_type := dense_of t\<rparr>))"
      by (simp add: dense_of_def)
    have h2: "value_type_of (mat_type ((example_matrix ori n)\<lparr>mat_type := dense_of t\<rparr>))
        \<in> {Float, Double, StdComplex Float, StdComplex Double}"
      using t by (simp add: dense_of_def)
    have h3: "vec_size ((example_vector n n)\<lparr>vec_type := dense_of t\<rparr>)
        = size2 ((example_matrix ori n)\<lparr>mat_type := dense_of t\<rparr>)"
      by (simp add: example_sizes)
    have h4: "size2 ((example_matrix ori n)\<lparr>mat_type := dense_of t\<rparr>)
        = size1 ((example_matrix ori n)\<lparr>mat_type := dense_of t\<rparr>)"
      by (simp add: example_sizes)
    show "?thesis t ori n up un"
      using trmv_issues_one_typed_native_call [OF h1 h2 h3 h4,
          where native = "\<lambda>c mem. mem" and upper = up and unit = un
            and s = "example_machine []"]
      by (simp add: example_matrix_def example_vector_def example_machine_def dense_of_def
          Let_def)
  qed
  show ?thesis
    using w [where t = Float and ori = column_major and n = 3 and up = False and un = True]
      w [where t = Double and ori = row_major and n = 3 and up = True and un = False]
      w [where t = "StdComplex Float" and ori = row_major and n = 2 and up = True
          and un = True]
      w [where t = "StdComplex Double" and ori = column_major and n = 2 and up = False
          and un = False]
    by (simp add: Let_def)
qed

text \<open>
  Claim C2 as stated fails at an invocation that does not pass the size checks: with
  a 2 by 2 matrix and a vector of length 3, both dense and of double precision, the
  trait predicate holds and the instantiation compiles, yet the invocation stops at
  the first size check and issues no native call.
\<close>

theorem trmv_issues_one_typed_native_call_counterexample:
  "has_optimized_trmv (mat_type (example_matrix row_major 2)) (vec_type (example_vector 2 3))
   \<and> trmv (\<lambda>c mem. mem) True False (example_matrix row_major 2) (example_vector 2 3)
         (example_machine [2, 3, 0, 4, 1, 1, 1])
       = (SizeCheckFailed, example_machine [2, 3, 0, 4, 1, 1, 1])
   \<and> native_calls (snd (trmv (\<lambda>c mem. mem) True False (example_matrix row_major 2)
         (example_vector 2 3) (example_machine [2, 3, 0, 4, 1, 1, 1]))) = []"
proof -
  have h: "vec_size (example_vector 2 3) \<noteq> size2 (example_matrix row_major 2)
      \<or> size2 (example_matrix row_major 2) \<noteq> size1 (example_matrix row_major 2)"
    by (simp add: example_sizes)
  have run: "trmv (\<lambda>c mem. mem) True False (example_matrix row_major 2) (example_vector 2 3)
         (example_machine [2, 3, 0, 4, 1, 1, 1])
       = (SizeCheckFailed, example_machine [2, 3, 0, 4, 1, 1, 1])"
    using example_overload h by (rule trmv_failed_check)
  have opt: "has_optimized_trmv (mat_type (example_matrix row_major 2))
      (vec_type (example_vector 2 3))"
    by (simp add: has_optimized_trmv_def example_matrix_def example_vector_def
        dense_double_def)
  show ?thesis unfolding run using opt by (simp add: example_machine_def)
qed

text \<open>
  Claim C3. Before any native call the adapter checks that the size of the vector
  equals the column count of the matrix and that the matrix is square. When either
  check fails the adapter stops with the failed size check at once: the memory is
  untouched and no native call has been recorded, so the native routine is not reached.
\<close>

theorem trmv_size_violation_aborts:
  assumes "trmv_overload (value_type_of (mat_type A)) (value_type_of (vec_type x)) = Some r"
      and "vec_size x \<noteq> size2 A \<or> size2 A \<noteq> size1 A"
  shows "trmv native upper unit A x s = (SizeCheckFailed, s)"
  using assms by (rule trmv_failed_check)

text \<open>The witness is the 3 by 3 matrix against a vector of length 4.\<close>

theorem trmv_size_violation_aborts_witness:
  "vec_size (example_vector 3 4) \<noteq> size2 (example_matrix row_major 3)
   \<and> trmv (\<lambda>c mem. mem) True False (example_matrix row_major 3) (example_vector 3 4)
         (example_machine [1, 2, 3, 0, 4, 5, 0, 0, 6, 1, 1, 1, 1])
       = (SizeCheckFailed, example_machine [1, 2, 3, 0, 4, 5, 0, 0, 6, 1, 1, 1, 1])
   \<and> native_calls (example_machine [1, 2, 3, 0, 4, 5, 0, 0, 6, 1, 1, 1, 1]) = []"
proof -
  have h1: "trmv_overload (value_type_of (mat_type (example_matrix row_major 3)))
      (value_type_of (vec_type (example_vector 3 4))) = Some cblas_dtrmv"
    by (rule example_overload)
  have h2: "vec_size (example_vector 3 4) \<noteq> size2 (example_matrix row_major 3)"
    by (simp add: example_sizes)
  then have h3: "vec_size (example_vector 3 4) \<noteq> size2 (example_matrix row_major 3)
      \<or> size2 (example_matrix row_major 3) \<noteq> size1 (example_matrix row_major 3)"
    by (rule disjI1)
  show ?thesis
    using h2 trmv_size_violation_aborts [OF h1 h3, where native = "\<lambda>c mem. mem"
        and upper = True and unit = False
        and s = "example_machine [1, 2, 3, 0, 4, 5, 0, 0, 6, 1, 1, 1, 1]"]
    by (simp add: example_machine_def)
qed

text \<open>
  Claim C4. On every invocation of the adapter, whatever the template parameters and
  the operands, each native call the invocation adds to the recorded calls has the
  transpose argument \<open>CblasNoTrans\<close>; the adapter has no transpose parameter.
\<close>

theorem trmv_transpose_is_no_trans:
  "\<forall>c \<in> set (drop (length (native_calls s))
               (native_calls (snd (trmv native upper unit A x s)))).
     arg_transA c = CblasNoTrans"
  using trmv_new_calls [of s native upper unit A x] by auto

theorem trmv_transpose_is_no_trans_witness:
  "map arg_transA (native_calls (snd (trmv (\<lambda>c mem. mem) True False
       (example_matrix row_major 2) (example_vector 2 2) (example_machine []))))
     = [CblasNoTrans]"
proof -
  have run: "trmv (\<lambda>c mem. mem) True False (example_matrix row_major 2) (example_vector 2 2)
      (example_machine []) =
     (Returned, invoke (\<lambda>c mem. mem)
        \<lparr>routine = cblas_dtrmv, arg_Order = CblasRowMajor, arg_uplo = CblasUpper,
         arg_transA = CblasNoTrans, arg_unit = CblasNonUnit, arg_N = 2,
         arg_A = 0, arg_lda = 2, arg_X = 4, arg_incX = 1\<rparr> (example_machine []))"
    by (simp add: trmv_checked_run [OF example_overload] example_sizes)
       (simp add: example_matrix_def example_vector_def)
  have "length (native_calls (snd (trmv (\<lambda>c mem. mem) True False
      (example_matrix row_major 2) (example_vector 2 2) (example_machine [])))) = Suc 0"
    unfolding run invoke_def by (simp add: example_machine_def)
  then obtain c where one: "native_calls (snd (trmv (\<lambda>c mem. mem) True False
      (example_matrix row_major 2) (example_vector 2 2) (example_machine []))) = [c]"
    by (auto simp add: length_Suc_conv)
  have e: "length (native_calls (example_machine [])) = 0"
    by (simp add: example_machine_def)
  have "\<forall>c \<in> set (drop 0 (native_calls (snd (trmv (\<lambda>c mem. mem) True False
      (example_matrix row_major 2) (example_vector 2 2) (example_machine []))))).
        arg_transA c = CblasNoTrans"
    using trmv_transpose_is_no_trans [where s = "example_machine []"
        and native = "\<lambda>c mem. mem" and upper = True and unit = False
        and A = "example_matrix row_major 2" and x = "example_vector 2 2"]
    unfolding e .
  then have "arg_transA c = CblasNoTrans" unfolding one by simp
  then show ?thesis unfolding one by simp
qed

lemma int_cast_value:
  fixes n :: size_t
  shows "sint (ucast n :: c_int) = signed_take_bit 31 (uint n)"
  by (simp add: sint_uint unsigned_ucast_eq signed_take_bit_take_bit)

lemma int_cast_exact:
  fixes n :: size_t
  assumes "unat n \<le> 2 ^ 31 - 1"
  shows "sint (ucast n :: c_int) = int (unat n)"
proof -
  have "unat n < 2147483648" using assms by simp
  then have "int (unat n) < 2147483648" by linarith
  then have b: "uint n < 2 ^ 31" by simp
  have "- (2 ^ 31) \<le> (0::int)" by simp
  also have "0 \<le> uint n" by simp
  finally have a: "- (2 ^ 31) \<le> uint n" .
  have "signed_take_bit 31 (uint n) = uint n"
    using a b by (rule signed_take_bit_int_eq_self)
  then show ?thesis by (simp add: int_cast_value)
qed

text \<open>
  Claim C10. The adapter converts the dimension from \<^verbatim>\<open>std::size_t\<close> to \<^verbatim>\<open>int\<close> by a cast
  that nothing guards: whatever the dimension of a square matrix, the invocation
  returns after one native call whose dimension argument is the low 32 bits of the
  dimension, read as a signed integer. For a dimension of at most \<open>2^31 - 1\<close> the
  value the native entry point receives is the dimension itself.
\<close>

theorem trmv_dimension_cast:
  assumes "trmv_overload (value_type_of (mat_type A)) (value_type_of (vec_type x)) = Some r"
      and "vec_size x = size2 A" and "size2 A = size1 A"
  shows "fst (trmv native upper unit A x s) = Returned
     \<and> length (native_calls (snd (trmv native upper unit A x s))) = Suc (length (native_calls s))
     \<and> arg_N (last (native_calls (snd (trmv native upper unit A x s)))) = ucast (size1 A)
     \<and> sint (arg_N (last (native_calls (snd (trmv native upper unit A x s)))))
           = signed_take_bit 31 (uint (size1 A))
     \<and> (unat (size1 A) \<le> 2 ^ 31 - 1 \<longrightarrow>
           sint (arg_N (last (native_calls (snd (trmv native upper unit A x s)))))
             = int (unat (size1 A)))"
proof -
  have N: "arg_N (last (native_calls (snd (trmv native upper unit A x s)))) = ucast (size1 A)"
    by (simp add: trmv_checked_run [OF assms] invoke_def)
  have r: "fst (trmv native upper unit A x s) = Returned"
    by (simp add: trmv_checked_run [OF assms])
  have l: "length (native_calls (snd (trmv native upper unit A x s)))
      = Suc (length (native_calls s))"
    by (simp add: trmv_checked_run [OF assms] invoke_def)
  show ?thesis
    unfolding N
    using r l int_cast_value [of "size1 A"] int_cast_exact [of "size1 A"] by blast
qed

text \<open>
  The witness has a dimension inside the range of \<^verbatim>\<open>int\<close>, 3, and one outside, \<open>2^31\<close>,
  for which the native entry point receives \<open>- 2^31\<close>.
\<close>

theorem trmv_dimension_cast_witness:
  "sint (arg_N (last (native_calls (snd (trmv (\<lambda>c mem. mem) True False
       (example_matrix row_major 3) (example_vector 3 3) (example_machine []))))))
     = 3
   \<and> fst (trmv (\<lambda>c mem. mem) True False (example_matrix row_major 2147483648)
            (example_vector 2147483648 2147483648) (example_machine [])) = Returned
   \<and> sint (arg_N (last (native_calls (snd (trmv (\<lambda>c mem. mem) True False
         (example_matrix row_major 2147483648) (example_vector 2147483648 2147483648)
         (example_machine []))))))
     = - 2147483648"
proof -
  have small: "unat (size1 (example_matrix row_major 3)) \<le> 2 ^ 31 - 1"
    by (simp add: example_sizes)
  have a: "sint (arg_N (last (native_calls (snd (trmv (\<lambda>c mem. mem) True False
       (example_matrix row_major 3) (example_vector 3 3) (example_machine []))))))
     = int (unat (size1 (example_matrix row_major 3)))"
    using small trmv_dimension_cast [OF example_overload, where ori1 = row_major and n1 = 3
        and k1 = 3 and native = "\<lambda>c mem. mem" and upper = True and unit = False
        and s = "example_machine []"]
    by (simp add: example_sizes del: of_nat_unat)
  have b: "fst (trmv (\<lambda>c mem. mem) True False (example_matrix row_major 2147483648)
            (example_vector 2147483648 2147483648) (example_machine [])) = Returned
     \<and> sint (arg_N (last (native_calls (snd (trmv (\<lambda>c mem. mem) True False
         (example_matrix row_major 2147483648) (example_vector 2147483648 2147483648)
         (example_machine []))))))
       = signed_take_bit 31 (uint (size1 (example_matrix row_major 2147483648)))"
    using trmv_dimension_cast [OF example_overload, where ori1 = row_major
        and n1 = 2147483648 and k1 = 2147483648 and native = "\<lambda>c mem. mem"
        and upper = True and unit = False and s = "example_machine []"]
    by (simp add: example_sizes)
  have c: "signed_take_bit 31 (uint (size1 (example_matrix row_major 2147483648)))
      = - 2147483648"
    by (simp add: example_sizes signed_take_bit_eq_take_bit_shift)
  show ?thesis using a b c by (simp add: example_sizes)
qed

section \<open>The adapter on the reference native routine\<close>

text \<open>
  Claim C5. For the upper triangular matrix with rows \<open>(2, 3)\<close> and \<open>(0, 4)\<close>, without
  unit diagonal, and the vector \<open>(1, 1)\<close>, the adapter on the native routine yields the
  vector \<open>(5, 4)\<close> when the matrix is stored by rows (buffer 2, 3, 0, 4) with the
  row-major orientation, and the same vector when it is stored by columns
  (buffer 2, 0, 3, 4) with the column-major orientation. The elements of the example
  are small whole numbers, on which the arithmetic of the element type is exact.
\<close>

theorem trmv_orientation_example:
  "fst (trmv cblas_trmv_ref True False (example_matrix row_major 2) (example_vector 2 2)
          (example_machine [2, 3, 0, 4, 1, 1])) = Returned
   \<and> read_vector (example_vector 2 2)
        (memory (snd (trmv cblas_trmv_ref True False (example_matrix row_major 2)
           (example_vector 2 2) (example_machine [2, 3, 0, 4, 1, 1])))) = [5, 4]
   \<and> fst (trmv cblas_trmv_ref True False (example_matrix column_major 2) (example_vector 2 2)
          (example_machine [2, 0, 3, 4, 1, 1])) = Returned
   \<and> read_vector (example_vector 2 2)
        (memory (snd (trmv cblas_trmv_ref True False (example_matrix column_major 2)
           (example_vector 2 2) (example_machine [2, 0, 3, 4, 1, 1])))) = [5, 4]"
  by (simp add: trmv_def example_matrix_def example_vector_def example_machine_def
      dense_double_def SIZE_CHECK_def trmv_double_def invoke_def cblas_trmv_ref_def
      op_entry_def triangular_entry_def stored_entry_def read_vector_def buffer_memory_def
      upt_conv_Cons)

section \<open>Properties of the Normalizer model\<close>

lemma setParameterVector_cases:
  "setParameterVector p m =
     (if length p \<noteq> numberOfParameters m then (SizeCheckFailed, m)
      else if \<not> hasOffset m then (Returned, m\<lparr>m_A := take (length (m_A m)) p\<rparr>)
      else if length (m_b m) = length (m_A m)
        then (Returned, m\<lparr>m_A := take (length (m_A m)) p, m_b := drop (length (m_A m)) p\<rparr>)
      else (SizeCheckFailed, m\<lparr>m_A := take (length (m_A m)) p\<rparr>))"
  by (auto simp add: setParameterVector_def SIZE_CHECK_def numberOfParameters_def
      hasOffset_def subrange_def noalias_assign_def Let_def min_def)

lemma length_parameterVector: "length (parameterVector m) = numberOfParameters m"
  by (simp add: parameterVector_def numberOfParameters_def hasOffset_def)

lemma eval_checks_row_count:
  assumes "fst (eval m input output) = Returned"
  shows "batch_size1 input = length (m_A m)"
  using assms by (simp add: eval_def SIZE_CHECK_def split: if_splits)

text \<open>
  A batch of two points of dimension two passes the check, the number of points being
  the size of the diagonal: each row is multiplied componentwise by the diagonal and
  the offset is added.
\<close>

lemma eval_square_batch_example:
  "eval \<lparr>m_A = [2, 3 :: real], m_b = [10, 20], m_hasOffset = True\<rparr>
       \<lparr>batch_size1 = 2, batch_size2 = 2, batch_rows = [[1, 1], [2, 2]]\<rparr>
       \<lparr>batch_size1 = 0, batch_size2 = 0, batch_rows = []\<rparr>
     = (Returned, \<lparr>batch_size1 = 2, batch_size2 = 2, batch_rows = [[12, 23], [14, 26]]\<rparr>)"
  by (simp add: eval_def SIZE_CHECK_def resize_def repeat_def elementwise_def
      noalias_assign_matrix_def same_shape_def hasOffset_def numeral_2_eq_2)

text \<open>
  Claim C7, at a batch the code does not accept. The model has the diagonal \<open>(2, 3)\<close>
  and no offset; the batch holds one point \<open>(1, 1)\<close>, whose dimension is the model's.
  The size check of \<open>eval\<close> compares the number of points, 1, with the size of the
  diagonal, 2, and fails: no output is produced.
\<close>

theorem eval_rejects_batch_of_matching_dimension:
  "batch_size2 \<lparr>batch_size1 = 1, batch_size2 = 2, batch_rows = [[1, 1 :: real]]\<rparr>
     = inputSize \<lparr>m_A = [2, 3 :: real], m_b = [], m_hasOffset = False\<rparr>
   \<and> eval \<lparr>m_A = [2, 3 :: real], m_b = [], m_hasOffset = False\<rparr>
         \<lparr>batch_size1 = 1, batch_size2 = 2, batch_rows = [[1, 1]]\<rparr>
         \<lparr>batch_size1 = 0, batch_size2 = 0, batch_rows = []\<rparr>
       = (SizeCheckFailed, \<lparr>batch_size1 = 0, batch_size2 = 0, batch_rows = []\<rparr>)"
  by (simp add: eval_def SIZE_CHECK_def inputSize_def)

text \<open>
  Claim C8. For every Normalizer model the length of \<open>parameterVector\<close> is
  \<open>numberOfParameters\<close>, and setting the parameters to the model's own parameter vector
  leaves the diagonal, the offset and the offset flag as they were. The call returns
  normally exactly when the model has no offset or its offset is as long as its
  diagonal; otherwise it stops at a failed shape check, the model still unchanged.
\<close>

theorem parameterVector_roundtrip:
  "length (parameterVector m) = numberOfParameters m
   \<and> numberOfParameters m
        = length (diagonal m) + (if hasOffset m then length (offset m) else 0)
   \<and> diagonal (snd (setParameterVector (parameterVector m) m)) = diagonal m
   \<and> offset (snd (setParameterVector (parameterVector m) m)) = offset m
   \<and> hasOffset (snd (setParameterVector (parameterVector m) m)) = hasOffset m
   \<and> snd (setParameterVector (parameterVector m) m) = m
   \<and> ((hasOffset m \<longrightarrow> length (m_b m) = length (m_A m)) \<longleftrightarrow>
        fst (setParameterVector (parameterVector m) m) = Returned)"
proof -
  have s: "snd (setParameterVector (parameterVector m) m) = m"
    by (simp add: setParameterVector_cases length_parameterVector)
       (simp add: parameterVector_def)
  have f: "(hasOffset m \<longrightarrow> length (m_b m) = length (m_A m)) \<longleftrightarrow>
      fst (setParameterVector (parameterVector m) m) = Returned"
    by (simp add: setParameterVector_cases length_parameterVector)
  have n: "numberOfParameters m
      = length (diagonal m) + (if hasOffset m then length (offset m) else 0)"
    by (simp add: numberOfParameters_def diagonal_def offset_def hasOffset_def)
  show ?thesis unfolding s using f n by (simp add: length_parameterVector)
qed

theorem parameterVector_roundtrip_witness:
  "length (parameterVector \<lparr>m_A = [2, 3 :: real], m_b = [5, 7], m_hasOffset = True\<rparr>) = 4
   \<and> setParameterVector (parameterVector \<lparr>m_A = [2, 3 :: real], m_b = [5, 7], m_hasOffset = True\<rparr>)
         \<lparr>m_A = [2, 3], m_b = [5, 7], m_hasOffset = True\<rparr>
       = (Returned, \<lparr>m_A = [2, 3], m_b = [5, 7], m_hasOffset = True\<rparr>)"
proof -
  let ?m = "\<lparr>m_A = [2, 3 :: real], m_b = [5, 7], m_hasOffset = True\<rparr>"
  have h: "hasOffset ?m \<longrightarrow> length (m_b ?m) = length (m_A ?m)" by simp
  have n: "numberOfParameters ?m = 4" by (simp add: numberOfParameters_def)
  have "fst (setParameterVector (parameterVector ?m) ?m) = Returned"
    and "snd (setParameterVector (parameterVector ?m) ?m) = ?m"
    and "length (parameterVector ?m) = numberOfParameters ?m"
    using h parameterVector_roundtrip [of ?m] by blast+
  then show ?thesis by (simp add: n prod_eq_iff)
qed

text \<open>
  Claim C9. For every Normalizer model and every new parameter vector whose length is
  \<open>numberOfParameters\<close>, \<open>setParameterVector\<close> leaves the offset flag, and with it
  \<open>inputSize\<close>, \<open>outputSize\<close> and \<open>numberOfParameters\<close>, unchanged, and without an offset
  it leaves the offset vector unchanged too. When the model has no offset or its offset
  is as long as its diagonal, the call returns normally, the diagonal holds the leading
  part of the new parameters and, with an offset, the offset holds the rest.
\<close>

theorem setParameterVector_frame:
  assumes "length p = numberOfParameters m"
  shows "hasOffset (snd (setParameterVector p m)) = hasOffset m
     \<and> inputSize (snd (setParameterVector p m)) = inputSize m
     \<and> outputSize (snd (setParameterVector p m)) = outputSize m
     \<and> numberOfParameters (snd (setParameterVector p m)) = numberOfParameters m
     \<and> (\<not> hasOffset m \<longrightarrow> offset (snd (setParameterVector p m)) = offset m)
     \<and> ((hasOffset m \<longrightarrow> length (m_b m) = length (m_A m)) \<longrightarrow>
          fst (setParameterVector p m) = Returned
          \<and> diagonal (snd (setParameterVector p m)) = take (length (m_A m)) p
          \<and> (hasOffset m \<longrightarrow> offset (snd (setParameterVector p m)) = drop (length (m_A m)) p))"
  using assms
  by (auto simp add: setParameterVector_cases hasOffset_def inputSize_def outputSize_def
      numberOfParameters_def offset_def diagonal_def)

theorem setParameterVector_frame_witness:
  "setParameterVector [1, 2 :: real] \<lparr>m_A = [7, 7], m_b = [9], m_hasOffset = False\<rparr>
     = (Returned, \<lparr>m_A = [1, 2], m_b = [9], m_hasOffset = False\<rparr>)
   \<and> setParameterVector [1, 2, 3, 4 :: real] \<lparr>m_A = [7, 7], m_b = [9, 9], m_hasOffset = True\<rparr>
     = (Returned, \<lparr>m_A = [1, 2], m_b = [3, 4], m_hasOffset = True\<rparr>)"
proof -
  let ?m = "\<lparr>m_A = [7, 7 :: real], m_b = [9], m_hasOffset = False\<rparr>"
  let ?k = "\<lparr>m_A = [7, 7 :: real], m_b = [9, 9], m_hasOffset = True\<rparr>"
  have hm: "length [1, 2 :: real] = numberOfParameters ?m"
    by (simp add: numberOfParameters_def)
  have hk: "length [1, 2, 3, 4 :: real] = numberOfParameters ?k"
    by (simp add: numberOfParameters_def)
  have wm: "hasOffset ?m \<longrightarrow> length (m_b ?m) = length (m_A ?m)"
    by (simp add: hasOffset_def)
  have wk: "hasOffset ?k \<longrightarrow> length (m_b ?k) = length (m_A ?k)"
    by simp
  have nm: "\<not> hasOffset ?m" by (simp add: hasOffset_def)
  have ok: "hasOffset ?k" by (simp add: hasOffset_def)
  have fm: "fst (setParameterVector [1, 2] ?m) = Returned"
    and dm: "diagonal (snd (setParameterVector [1, 2] ?m)) = take (length (m_A ?m)) [1, 2]"
    and om: "offset (snd (setParameterVector [1, 2] ?m)) = offset ?m"
    and gm: "hasOffset (snd (setParameterVector [1, 2] ?m)) = hasOffset ?m"
    using wm nm setParameterVector_frame [OF hm] by blast+
  have fk: "fst (setParameterVector [1, 2, 3, 4] ?k) = Returned"
    and dk: "diagonal (snd (setParameterVector [1, 2, 3, 4] ?k))
        = take (length (m_A ?k)) [1, 2, 3, 4]"
    and ok': "offset (snd (setParameterVector [1, 2, 3, 4] ?k))
        = drop (length (m_A ?k)) [1, 2, 3, 4]"
    and gk: "hasOffset (snd (setParameterVector [1, 2, 3, 4] ?k)) = hasOffset ?k"
    using wk ok setParameterVector_frame [OF hk] by blast+
  have eqI: "\<And>r (a :: real Normalizer) b.
      fst r = Returned \<Longrightarrow> diagonal (snd r) = diagonal b \<Longrightarrow> offset (snd r) = offset b \<Longrightarrow>
      hasOffset (snd r) = hasOffset b \<Longrightarrow> r = (Returned, b)"
    by (auto simp add: prod_eq_iff diagonal_def offset_def hasOffset_def)
  have "setParameterVector [1, 2] ?m = (Returned, \<lparr>m_A = [1, 2], m_b = [9], m_hasOffset = False\<rparr>)"
    using fm dm om gm by (intro eqI) (simp_all add: diagonal_def offset_def hasOffset_def)
  moreover have "setParameterVector [1, 2, 3, 4] ?k
      = (Returned, \<lparr>m_A = [1, 2], m_b = [3, 4], m_hasOffset = True\<rparr>)"
    using fk dk ok' gk by (intro eqI) (simp_all add: diagonal_def offset_def hasOffset_def)
  ultimately show ?thesis by simp
qed

end
